theory Spec2Isabelle
  imports Main "HOL-Library.Word"
begin

unbundle bit_operations_syntax

section \<open>Configuration (arm_bit_banding.h, lines 28-37)\<close>

text \<open>
  The header is usable only when the two region bases are defined as macros. Both
  are 32-bit addresses of the Cortex-M3/M4 memory map. Their definitions are not part
  of the header, so they are parameters of everything below.
\<close>

record config =
  SRAM1_BB_BASE :: "32 word"
  SRAM1_BASE :: "32 word"

datatype build_error = SRAM1_BB_BASE_undefined | SRAM1_BASE_undefined

text \<open>
  The two \<^verbatim>\<open>#if !defined(...) #error\<close> groups, in the order of the file. Each one
  emits its diagnostic independently of the other.
\<close>

definition config_guards :: "32 word option \<Rightarrow> 32 word option \<Rightarrow> build_error list" where
  "config_guards bb_base base =
     (if bb_base = None then [SRAM1_BB_BASE_undefined] else []) @
     (if base = None then [SRAM1_BASE_undefined] else [])"

text \<open>
  Translating the header: a translation unit with an active \<^verbatim>\<open>#error\<close> is not
  translated; otherwise the functions below exist, over the two defined bases.
\<close>

fun build :: "32 word option \<Rightarrow> 32 word option \<Rightarrow> build_error list + config" where
  "build (Some bb) (Some b) = Inr \<lparr>SRAM1_BB_BASE = bb, SRAM1_BASE = b\<rparr>"
| "build bb_base base = Inl (config_guards bb_base base)"

section \<open>Flag handles (lines 43-81)\<close>

text \<open>\<^verbatim>\<open>typedef volatile uint32_t* flag_t\<close>: a pointer of the 32-bit target.\<close>

type_synonym flag_t = "32 word"

text \<open>\<^verbatim>\<open>#define INVALID_FLAG (flag_t)NULL\<close>\<close>

definition INVALID_FLAG :: flag_t where
  "INVALID_FLAG = 0"

text \<open>
  \<^verbatim>\<open>BIT_WORD_OFFSET(byte_offset, bit_num) (((byte_offset)*32) + ((bit_num)*4))\<close>.
  At its only use the byte offset is a \<^verbatim>\<open>uint32_t\<close> and the bit number a
  \<^verbatim>\<open>uint8_t\<close>. The bit number is promoted to \<^verbatim>\<open>int\<close>, multiplied there (at most
  \<open>255 * 4\<close>, no overflow) and converted to \<^verbatim>\<open>uint32_t\<close> for the sum, which wraps.
\<close>

definition BIT_WORD_OFFSET :: "32 word \<Rightarrow> 8 word \<Rightarrow> 32 word" where
  "BIT_WORD_OFFSET byte_offset bit_num = byte_offset * 32 + word_of_int (uint bit_num * 4)"

text \<open>
  \<^verbatim>\<open>BIT_WORD_ADDR(byte_offset, bit_num)
    (flag_t)(((SRAM1_BB_BASE) + BIT_WORD_OFFSET(byte_offset, bit_num)))\<close>
\<close>

definition BIT_WORD_ADDR :: "config \<Rightarrow> 32 word \<Rightarrow> 8 word \<Rightarrow> flag_t" where
  "BIT_WORD_ADDR cfg byte_offset bit_num =
     SRAM1_BB_BASE cfg + BIT_WORD_OFFSET byte_offset bit_num"

text \<open>\<^verbatim>\<open>BYTE_OFFSET(ADDR) (((uint32_t)(ADDR) - (uint32_t)(SRAM1_BASE)))\<close>\<close>

definition BYTE_OFFSET :: "config \<Rightarrow> 32 word \<Rightarrow> 32 word" where
  "BYTE_OFFSET cfg addr = addr - SRAM1_BASE cfg"

text \<open>\<^verbatim>\<open>MAKE_FLAG(ADDR, BIT) (flag_t)(BIT_WORD_ADDR(BYTE_OFFSET(ADDR), (BIT)))\<close>\<close>

definition MAKE_FLAG :: "config \<Rightarrow> 32 word \<Rightarrow> 8 word \<Rightarrow> flag_t" where
  "MAKE_FLAG cfg addr bit_num = BIT_WORD_ADDR cfg (BYTE_OFFSET cfg addr) bit_num"

section \<open>Public functions (lines 108-148)\<close>

text \<open>
  \<^verbatim>\<open>static inline flag_t abb_make(volatile uint8_t* addr, uint8_t bit)
  { return (bit < 8) ? MAKE_FLAG(addr, bit) : INVALID_FLAG; }\<close>
\<close>

definition abb_make :: "config \<Rightarrow> 32 word \<Rightarrow> 8 word \<Rightarrow> flag_t" where
  "abb_make cfg addr bit_num =
     (if bit_num < 8 then MAKE_FLAG cfg addr bit_num else INVALID_FLAG)"

text \<open>
  A cell is in the window when it lies in the bit-band region, the lowest 1 MB above
  \<^verbatim>\<open>SRAM1_BASE\<close> (file comment, lines 15-17).
\<close>

definition in_window :: "config \<Rightarrow> 32 word \<Rightarrow> bool" where
  "in_window cfg addr = (BYTE_OFFSET cfg addr < 0x100000)"

section \<open>The memory system under the volatile accesses\<close>

text \<open>
  \<open>abb_set\<close>, \<open>abb_clear\<close> and \<open>abb_tst\<close> are one volatile 32-bit access each. What
  such an access does is decided by the processor's bus, which the header describes in
  its file comment (lines 8-17, after section 3.7 of the Cortex-M3/M4 Technical
  Reference Manual): the bit-band region is the lowest 1 MB of SRAM, the alias region
  holds one word for every bit of it, a write to an alias word sets or clears that bit
  (by bit 0 of the value written) and a read of an alias word gives the bit as 0 or 1.
  Any other address is ordinary little-endian memory.

  The state is the content of the byte-addressed memory. The alias region has no
  storage of its own.
\<close>

type_synonym memory = "32 word \<Rightarrow> 8 word"

record memory_map =
  bb_region :: "32 word"
  bb_alias :: "32 word"

definition in_alias :: "memory_map \<Rightarrow> 32 word \<Rightarrow> bool" where
  "in_alias mm a = (a - bb_alias mm < 0x2000000)"

definition alias_cell :: "memory_map \<Rightarrow> 32 word \<Rightarrow> 32 word" where
  "alias_cell mm a = bb_region mm + drop_bit 5 (a - bb_alias mm)"

definition alias_bit :: "memory_map \<Rightarrow> 32 word \<Rightarrow> nat" where
  "alias_bit mm a = unat (take_bit 3 (drop_bit 2 (a - bb_alias mm)))"

text \<open>Ordinary byte access, as \<^verbatim>\<open>*(volatile uint8_t*)a\<close>.\<close>

definition load8 :: "memory \<Rightarrow> 32 word \<Rightarrow> 8 word" where
  "load8 m a = m a"

definition store32 :: "memory_map \<Rightarrow> memory \<Rightarrow> 32 word \<Rightarrow> 32 word \<Rightarrow> memory" where
  "store32 mm m a v =
     (if in_alias mm a
      then m(alias_cell mm a :=
               (if bit v 0 then set_bit (alias_bit mm a) (m (alias_cell mm a))
                else unset_bit (alias_bit mm a) (m (alias_cell mm a))))
      else m(a := ucast v, a + 1 := ucast (drop_bit 8 v),
             a + 2 := ucast (drop_bit 16 v), a + 3 := ucast (drop_bit 24 v)))"

definition load32 :: "memory_map \<Rightarrow> memory \<Rightarrow> 32 word \<Rightarrow> 32 word" where
  "load32 mm m a =
     (if in_alias mm a
      then (if bit (m (alias_cell mm a)) (alias_bit mm a) then 1 else 0)
      else ucast (m a) OR push_bit 8 (ucast (m (a + 1))) OR
           push_bit 16 (ucast (m (a + 2))) OR push_bit 24 (ucast (m (a + 3))))"

text \<open>
  The bases given to the header are those of the chip's bit-band pair (the invariant
  of the Region Base Pair).
\<close>

definition configured :: "memory_map \<Rightarrow> config \<Rightarrow> bool" where
  "configured mm cfg = (SRAM1_BASE cfg = bb_region mm \<and> SRAM1_BB_BASE cfg = bb_alias mm)"

text \<open>\<^verbatim>\<open>static inline void abb_set(flag_t flag) { *flag = 1; }\<close>\<close>

definition abb_set :: "memory_map \<Rightarrow> flag_t \<Rightarrow> memory \<Rightarrow> memory" where
  "abb_set mm flag m = store32 mm m flag 1"

text \<open>\<^verbatim>\<open>static inline void abb_clear(flag_t flag) { *flag = 0; }\<close>\<close>

definition abb_clear :: "memory_map \<Rightarrow> flag_t \<Rightarrow> memory \<Rightarrow> memory" where
  "abb_clear mm flag m = store32 mm m flag 0"

text \<open>
  \<^verbatim>\<open>static inline bool abb_tst(const flag_t flag) { return *flag == 1; }\<close>
  The result and the memory after the call.
\<close>

definition abb_tst :: "memory_map \<Rightarrow> flag_t \<Rightarrow> memory \<Rightarrow> bool \<times> memory" where
  "abb_tst mm flag m = (load32 mm m flag = 1, m)"

text \<open>The chip of the specification's scenario and its configuration.\<close>

definition stm32_map :: memory_map where
  "stm32_map = \<lparr>bb_region = 0x20000000, bb_alias = 0x22000000\<rparr>"

definition stm32_cfg :: config where
  "stm32_cfg = \<lparr>SRAM1_BB_BASE = 0x22000000, SRAM1_BASE = 0x20000000\<rparr>"

section \<open>Address translation\<close>

lemma MAKE_FLAG_word:
  "MAKE_FLAG cfg addr b = SRAM1_BB_BASE cfg + (addr - SRAM1_BASE cfg) * 32 + ucast b * 4"
proof -
  have "(word_of_int (uint b * 4) :: 32 word) = ucast b * 4"
    by (simp add: word_of_int_uint)
  then show ?thesis
    by (simp add: MAKE_FLAG_def BIT_WORD_ADDR_def BIT_WORD_OFFSET_def BYTE_OFFSET_def
        add.assoc)
qed

lemma abb_make_scenario: "abb_make stm32_cfg 0x20000004 3 = 0x2200008C"
  by (simp add: abb_make_def MAKE_FLAG_word stm32_cfg_def)

lemma stm32_configured: "configured stm32_map stm32_cfg"
  by (simp add: configured_def stm32_map_def stm32_cfg_def)

lemma stm32_in_window: "in_window stm32_cfg 0x20000004"
  by (simp add: in_window_def BYTE_OFFSET_def stm32_cfg_def)

text \<open>
  C1. For every cell address and every bit index in 0..7, \<open>abb_make\<close> returns the
  handle at \<open>AliasBase + (cellAddress - SourceBase) * 32 + bitIndex * 4\<close>, the
  difference and the sum being those of unsigned 32-bit arithmetic. With the bases
  \<open>0x20000000\<close> and \<open>0x22000000\<close>, cell \<open>0x20000004\<close> and bit 3 the handle is
  \<open>0x2200008C\<close>.
\<close>

theorem abb_make_formula:
  "(b < 8 \<longrightarrow>
      abb_make cfg addr b =
        SRAM1_BB_BASE cfg + (addr - SRAM1_BASE cfg) * 32 + ucast b * 4) \<and>
   abb_make stm32_cfg 0x20000004 3 = 0x2200008C"
proof
  show "b < 8 \<longrightarrow>
      abb_make cfg addr b =
        SRAM1_BB_BASE cfg + (addr - SRAM1_BASE cfg) * 32 + ucast b * 4"
    by (simp add: abb_make_def MAKE_FLAG_word)
  show "abb_make stm32_cfg 0x20000004 3 = 0x2200008C"
    by (rule abb_make_scenario)
qed

theorem abb_make_formula_witness:
  "(5 :: 8 word) < 8 \<and>
   abb_make stm32_cfg 0x20000010 5 = 0x22000214"
  using abb_make_formula [of 5 stm32_cfg "0x20000010"]
  by (simp add: stm32_cfg_def)

text \<open>
  C2. For every cell address and every bit index of 8 or more, \<open>abb_make\<close> returns
  \<open>INVALID_FLAG\<close>, the null pointer, and not the address computed by \<open>MAKE_FLAG\<close>.
  No other input is checked: every bit index below 8 gets the computed address.
\<close>

theorem abb_make_invalid:
  "(8 \<le> b \<longrightarrow> abb_make cfg addr b = INVALID_FLAG \<and> INVALID_FLAG = 0) \<and>
   (b < 8 \<longrightarrow> abb_make cfg addr b = MAKE_FLAG cfg addr b)"
  by (auto simp add: abb_make_def INVALID_FLAG_def)

theorem abb_make_invalid_witness:
  "(8 :: 8 word) \<le> 8 \<and> abb_make stm32_cfg 0x20000004 8 = INVALID_FLAG \<and>
   (7 :: 8 word) < 8 \<and> abb_make stm32_cfg 0x20000004 7 = 0x2200009C"
  using abb_make_invalid [of 8 stm32_cfg "0x20000004"]
    abb_make_invalid [of 7 stm32_cfg "0x20000004"]
  by (simp add: MAKE_FLAG_word stm32_cfg_def)

section \<open>Handles of cells in the window\<close>

text \<open>
  For a byte offset below 1 MB and a bit index below 8 the word offset does not wrap,
  and the offset and the bit index can be read back from it.
\<close>

lemma u8_32: "unat (ucast (b :: 8 word) :: 32 word) = unat b"
proof -
  have "unat b < 2 ^ 8" using unsigned_less [of b] by simp
  then have "unat b < 4294967296" by simp
  then show ?thesis by (simp add: unsigned_ucast_eq take_bit_nat_eq_self_iff)
qed

lemma window_offset:
  fixes off :: "32 word" and b :: "8 word"
  assumes "off < 0x100000" "b < 8"
  shows "unat (off * 32 + ucast b * 4) = unat off * 32 + unat b * 4"
proof -
  have o: "unat off < 1048576" using assms(1) by (simp add: word_less_nat_alt)
  have k: "unat b < 8" using assms(2) by (simp add: word_less_nat_alt)
  have m1: "unat (off * 32) = unat off * 32" using o by (simp add: unat_word_ariths)
  have m2: "unat (ucast b * 4 :: 32 word) = unat b * 4"
    using k u8_32 [of b] by (simp add: unat_word_ariths)
  show ?thesis using o k m1 m2
    by (simp add: unat_word_ariths)
qed

lemma window_lt:
  fixes off :: "32 word" and b :: "8 word"
  assumes "off < 0x100000" "b < 8"
  shows "off * 32 + ucast b * 4 < 0x2000000"
proof -
  have o: "unat off < 1048576" using assms(1) by (simp add: word_less_nat_alt)
  have k: "unat b < 8" using assms(2) by (simp add: word_less_nat_alt)
  show ?thesis using o k window_offset [OF assms] by (simp add: word_less_nat_alt)
qed

lemma window_cell:
  fixes off :: "32 word" and b :: "8 word"
  assumes "off < 0x100000" "b < 8"
  shows "drop_bit 5 (off * 32 + ucast b * 4) = off"
proof -
  have k: "unat b < 8" using assms(2) by (simp add: word_less_nat_alt)
  have "unat (drop_bit 5 (off * 32 + ucast b * 4)) = drop_bit 5 (unat (off * 32 + ucast b * 4))"
    by (rule unat_drop_bit_eq)
  also have "\<dots> = (unat off * 32 + unat b * 4) div 32"
    by (simp only: window_offset [OF assms] drop_bit_eq_div) simp
  also have "\<dots> = unat off" using k by simp
  finally show ?thesis by (simp add: word_unat_eq_iff)
qed

lemma window_bit:
  fixes off :: "32 word" and b :: "8 word"
  assumes "off < 0x100000" "b < 8"
  shows "unat (take_bit 3 (drop_bit 2 (off * 32 + ucast b * 4))) = unat b"
proof -
  have k: "unat b < 8" using assms(2) by (simp add: word_less_nat_alt)
  have "unat (take_bit 3 (drop_bit 2 (off * 32 + ucast b * 4)))
      = take_bit 3 (drop_bit 2 (unat (off * 32 + ucast b * 4)))"
    by (simp only: unsigned_take_bit_eq unat_drop_bit_eq)
  also have "\<dots> = ((unat off * 32 + unat b * 4) div 4) mod 8"
    by (simp only: window_offset [OF assms] drop_bit_eq_div take_bit_eq_mod) simp
  also have "\<dots> = unat b" using k by simp
  finally show ?thesis .
qed

lemma offset_determines:
  fixes o1 o2 :: "32 word" and b1 b2 :: "8 word"
  assumes "o1 < 0x100000" "b1 < 8" "o2 < 0x100000" "b2 < 8"
    and eq: "o1 * 32 + ucast b1 * 4 = o2 * 32 + ucast b2 * 4"
  shows "o1 = o2 \<and> b1 = b2"
proof
  have "drop_bit 5 (o1 * 32 + ucast b1 * 4) = drop_bit 5 (o2 * 32 + ucast b2 * 4)"
    by (simp only: eq)
  then show "o1 = o2"
    by (simp only: window_cell [OF assms(1,2)] window_cell [OF assms(3,4)])
  have "unat (take_bit 3 (drop_bit 2 (o1 * 32 + ucast b1 * 4)))
      = unat (take_bit 3 (drop_bit 2 (o2 * 32 + ucast b2 * 4)))"
    by (simp only: eq)
  then have "unat b1 = unat b2"
    by (simp only: window_bit [OF assms(1,2)] window_bit [OF assms(3,4)])
  then show "b1 = b2" by (simp add: word_unat_eq_iff)
qed

lemma next_bit:
  fixes b :: "8 word"
  assumes "b < 7"
  shows "b + 1 < 8" and "(ucast (b + 1) :: 32 word) = ucast b + 1"
proof -
  have k: "unat b < 7" using assms by (simp add: word_less_nat_alt)
  then have u: "unat (b + 1) = unat b + 1" by (simp add: unat_word_ariths)
  then show "b + 1 < 8" using k by (simp add: word_less_nat_alt)
  have "unat (ucast (b + 1) :: 32 word) = unat (ucast b + 1 :: 32 word)"
    using k u by (simp add: u8_32 unat_word_ariths)
  then show "(ucast (b + 1) :: 32 word) = ucast b + 1" by (simp only: word_unat_eq_iff)
qed

text \<open>
  The bus decodes the handle of bit \<open>b\<close> of an in-window cell \<open>c\<close> back to that cell
  and that bit.
\<close>

lemma handle_decodes:
  assumes "configured mm cfg" "in_window cfg c" "b < 8"
  shows "in_alias mm (abb_make cfg c b)"
    and "alias_cell mm (abb_make cfg c b) = c"
    and "alias_bit mm (abb_make cfg c b) = unat b"
proof -
  let ?off = "c - bb_region mm"
  have o: "?off < 0x100000"
    using assms(1,2) by (simp add: in_window_def BYTE_OFFSET_def configured_def)
  have h: "abb_make cfg c b - bb_alias mm = ?off * 32 + ucast b * 4"
    using assms(1,3) by (simp add: abb_make_def MAKE_FLAG_word configured_def)
  show "in_alias mm (abb_make cfg c b)"
    unfolding in_alias_def h by (rule window_lt [OF o assms(3)])
  show "alias_cell mm (abb_make cfg c b) = c"
    unfolding alias_cell_def h by (simp only: window_cell [OF o assms(3)]) simp
  show "alias_bit mm (abb_make cfg c b) = unat b"
    unfolding alias_bit_def h by (rule window_bit [OF o assms(3)])
qed

section \<open>Set, clear and test\<close>

lemma alias_bit_lt: "alias_bit mm a < 8"
proof -
  have "alias_bit mm a = take_bit 3 (unat (drop_bit 2 (a - bb_alias mm)))"
    by (simp only: alias_bit_def unsigned_take_bit_eq)
  then show ?thesis by (simp add: take_bit_eq_mod)
qed

text \<open>A word read gives back the 1 or the 0 just written, at every address.\<close>

lemma load32_store32:
  "load32 mm (store32 mm m a 1) a = 1" "load32 mm (store32 mm m a 0) a = 0"
  by (simp_all add: load32_def store32_def bit_simps alias_bit_lt)

text \<open>
  Through a handle of an in-window cell, \<open>abb_set\<close> and \<open>abb_clear\<close> change one bit of
  one byte of the memory.
\<close>

lemma abb_set_cell:
  assumes "configured mm cfg" "in_window cfg c" "b < 8"
  shows "abb_set mm (abb_make cfg c b) m = m(c := set_bit (unat b) (m c))"
  by (simp add: abb_set_def store32_def handle_decodes [OF assms])

lemma abb_clear_cell:
  assumes "configured mm cfg" "in_window cfg c" "b < 8"
  shows "abb_clear mm (abb_make cfg c b) m = m(c := unset_bit (unat b) (m c))"
  by (simp add: abb_clear_def store32_def handle_decodes [OF assms])

text \<open>
  C3. For every valid handle (made by \<open>abb_make\<close> for a bit index in 0..7 of an
  in-window cell), test after set is true, test after clear is false, and test after
  two sets is true.
\<close>

theorem set_clear_test_roundtrip:
  "\<lbrakk>configured mm cfg; in_window cfg c; b < 8\<rbrakk> \<Longrightarrow>
     fst (abb_tst mm (abb_make cfg c b) (abb_set mm (abb_make cfg c b) m)) \<and>
     \<not> fst (abb_tst mm (abb_make cfg c b) (abb_clear mm (abb_make cfg c b) m)) \<and>
     fst (abb_tst mm (abb_make cfg c b)
            (abb_set mm (abb_make cfg c b) (abb_set mm (abb_make cfg c b) m)))"
  by (simp add: abb_tst_def abb_set_def abb_clear_def load32_store32)

theorem set_clear_test_roundtrip_witness:
  "configured stm32_map stm32_cfg \<and> in_window stm32_cfg 0x20000004 \<and> (3 :: 8 word) < 8 \<and>
   fst (abb_tst stm32_map 0x2200008C (abb_set stm32_map 0x2200008C (\<lambda>a. 0))) \<and>
   \<not> fst (abb_tst stm32_map 0x2200008C (abb_clear stm32_map 0x2200008C (\<lambda>a. 255))) \<and>
   fst (abb_tst stm32_map 0x2200008C
          (abb_set stm32_map 0x2200008C (abb_set stm32_map 0x2200008C (\<lambda>a. 0))))"
proof -
  have b: "(3 :: 8 word) < 8" by simp
  show ?thesis
    using set_clear_test_roundtrip [OF stm32_configured stm32_in_window b, of "\<lambda>a. 0"]
      set_clear_test_roundtrip [OF stm32_configured stm32_in_window b, of "\<lambda>a. 255"]
      stm32_configured stm32_in_window
    by (simp add: abb_make_scenario)
qed

text \<open>
  C4. For every valid handle for bit \<open>b\<close> of a cell, set and clear leave every other
  bit of that cell, read by ordinary byte access, as it was.
\<close>

theorem set_clear_isolation:
  assumes "configured mm cfg" "in_window cfg c" "b < 8" "j \<noteq> unat b"
  shows "bit (load8 (abb_set mm (abb_make cfg c b) m) c) j = bit (load8 m c) j \<and>
         bit (load8 (abb_clear mm (abb_make cfg c b) m) c) j = bit (load8 m c) j"
  using assms(4)
  by (auto simp add: abb_set_cell [OF assms(1-3)] abb_clear_cell [OF assms(1-3)] load8_def
      bit_simps)

theorem set_clear_isolation_witness:
  "configured stm32_map stm32_cfg \<and> in_window stm32_cfg 0x20000004 \<and> (3 :: 8 word) < 8 \<and>
   (0 :: nat) \<noteq> unat (3 :: 8 word) \<and>
   bit (load8 (abb_set stm32_map 0x2200008C (\<lambda>a. 0xA4)) 0x20000004) 0
     = bit (load8 (\<lambda>a. 0xA4) 0x20000004) 0 \<and>
   bit (load8 (abb_clear stm32_map 0x2200008C (\<lambda>a. 0xA4)) 0x20000004) 0
     = bit (load8 (\<lambda>a. 0xA4) 0x20000004) 0"
proof -
  have b: "(3 :: 8 word) < 8" by simp
  have j: "(0 :: nat) \<noteq> unat (3 :: 8 word)" by simp
  show ?thesis
    using set_clear_isolation [OF stm32_configured stm32_in_window b j, of "\<lambda>a. 0xA4"]
      stm32_configured stm32_in_window
    by (simp add: abb_make_scenario)
qed

text \<open>
  C5. On in-window cells and bit indices 0..7 distinct (cell, bit) pairs get distinct
  handles. For one cell the handle of bit \<open>b + 1\<close> is the handle of bit \<open>b\<close> plus 4;
  the handles of bits 0 and 1 differ by exactly 4.
\<close>

theorem handle_injective:
  "(in_window cfg c1 \<and> in_window cfg c2 \<and> b1 < 8 \<and> b2 < 8 \<and> (c1, b1) \<noteq> (c2, b2) \<longrightarrow>
      abb_make cfg c1 b1 \<noteq> abb_make cfg c2 b2) \<and>
   (b < 7 \<longrightarrow> abb_make cfg c (b + 1) = abb_make cfg c b + 4) \<and>
   abb_make cfg c 1 = abb_make cfg c 0 + 4"
proof (intro conjI impI)
  assume a: "in_window cfg c1 \<and> in_window cfg c2 \<and> b1 < 8 \<and> b2 < 8 \<and> (c1, b1) \<noteq> (c2, b2)"
  show "abb_make cfg c1 b1 \<noteq> abb_make cfg c2 b2"
  proof
    assume "abb_make cfg c1 b1 = abb_make cfg c2 b2"
    then have "(c1 - SRAM1_BASE cfg) * 32 + ucast b1 * 4
        = (c2 - SRAM1_BASE cfg) * 32 + ucast b2 * 4"
      using a by (simp add: abb_make_def MAKE_FLAG_word add.assoc)
    moreover have "c1 - SRAM1_BASE cfg < 0x100000" "c2 - SRAM1_BASE cfg < 0x100000"
      using a by (simp_all add: in_window_def BYTE_OFFSET_def)
    ultimately have "c1 - SRAM1_BASE cfg = c2 - SRAM1_BASE cfg \<and> b1 = b2"
      using a by (intro offset_determines) simp_all
    then show False using a by simp
  qed
next
  assume b: "b < 7"
  then have "b < 8" by (simp add: word_less_nat_alt)
  then show "abb_make cfg c (b + 1) = abb_make cfg c b + 4"
    using next_bit [OF b] by (simp add: abb_make_def MAKE_FLAG_word distrib_right)
next
  show "abb_make cfg c 1 = abb_make cfg c 0 + 4"
    by (simp add: abb_make_def MAKE_FLAG_word)
qed

theorem handle_injective_witness:
  "in_window stm32_cfg 0x20000004 \<and> in_window stm32_cfg 0x20000005 \<and>
   (7 :: 8 word) < 8 \<and> (0 :: 8 word) < 8 \<and>
   ((0x20000004 :: 32 word), (7 :: 8 word)) \<noteq> (0x20000005, 0) \<and>
   abb_make stm32_cfg 0x20000004 7 \<noteq> abb_make stm32_cfg 0x20000005 0 \<and>
   (6 :: 8 word) < 7 \<and>
   abb_make stm32_cfg 0x20000004 (6 + 1) = abb_make stm32_cfg 0x20000004 6 + 4"
proof -
  have w: "in_window stm32_cfg 0x20000004" "in_window stm32_cfg 0x20000005"
    by (simp_all add: in_window_def BYTE_OFFSET_def stm32_cfg_def)
  show ?thesis
    using handle_injective [of stm32_cfg "0x20000004" "0x20000005" 7 0 6 "0x20000004"] w
    by (simp add: abb_make_def MAKE_FLAG_word stm32_cfg_def)
qed

text \<open>
  C6. \<open>abb_tst\<close> makes one word read at the handle's address and is true exactly when
  the word read is 1. A word of 2, or of \<open>0x101\<close>, read from ordinary memory gives
  false.
\<close>

theorem abb_tst_strict:
  "fst (abb_tst mm flag m) = (load32 mm m flag = 1) \<and>
   load32 stm32_map ((\<lambda>a. 0)(0x20000000 := 2)) 0x20000000 = 2 \<and>
   \<not> fst (abb_tst stm32_map 0x20000000 ((\<lambda>a. 0)(0x20000000 := 2))) \<and>
   load32 stm32_map ((\<lambda>a. 0)(0x20000000 := 1, 0x20000001 := 1)) 0x20000000 = 0x101 \<and>
   \<not> fst (abb_tst stm32_map 0x20000000 ((\<lambda>a. 0)(0x20000000 := 1, 0x20000001 := 1)))"
  by (simp add: abb_tst_def load32_def in_alias_def stm32_map_def)

theorem abb_tst_strict_witness:
  "fst (abb_tst stm32_map 0x20000000 ((\<lambda>a. 0)(0x20000000 := 1))) \<and>
   load32 stm32_map ((\<lambda>a. 0)(0x20000000 := 1)) 0x20000000 = 1"
  using abb_tst_strict [of stm32_map "0x20000000" "(\<lambda>a. 0)(0x20000000 := 1)"]
  by (simp add: load32_def in_alias_def stm32_map_def)

text \<open>
  C7. \<open>abb_make\<close> is deterministic: equal inputs give equal handles, and the handle
  is an expression of the two bases, the cell address and the bit index alone.
\<close>

theorem abb_make_deterministic:
  "(c1 = c2 \<and> b1 = b2 \<longrightarrow> abb_make cfg c1 b1 = abb_make cfg c2 b2) \<and>
   abb_make cfg c b =
     (if b < 8 then SRAM1_BB_BASE cfg + (c - SRAM1_BASE cfg) * 32 + ucast b * 4 else 0)"
  by (simp add: abb_make_def MAKE_FLAG_word INVALID_FLAG_def)

theorem abb_make_deterministic_witness:
  "(0x20000004 :: 32 word) = 0x20000004 \<and> (3 :: 8 word) = 3 \<and>
   abb_make stm32_cfg 0x20000004 3 = abb_make stm32_cfg 0x20000004 3 \<and>
   abb_make stm32_cfg 0x20000004 3 = 0x2200008C"
  using abb_make_deterministic [of "0x20000004" "0x20000004" 3 3 stm32_cfg "0x20000004" 3]
  by (simp add: stm32_cfg_def)

text \<open>
  C8. When either base is undefined the header does not translate: the result is the
  non-empty list of \<^verbatim>\<open>#error\<close> diagnostics. A configuration, which every function
  of the header takes, exists only when both bases were defined.
\<close>

theorem build_refuses:
  "(bb = None \<or> base = None \<longrightarrow>
      build bb base = Inl (config_guards bb base) \<and> config_guards bb base \<noteq> []) \<and>
   (build bb base = Inr cfg \<longrightarrow>
      bb = Some (SRAM1_BB_BASE cfg) \<and> base = Some (SRAM1_BASE cfg))"
  by (cases bb; cases base) (auto simp add: config_guards_def)

theorem build_refuses_witness:
  "build None (Some 0x20000000) = Inl [SRAM1_BB_BASE_undefined] \<and>
   build (Some 0x22000000) None = Inl [SRAM1_BASE_undefined] \<and>
   build None None = Inl [SRAM1_BB_BASE_undefined, SRAM1_BASE_undefined] \<and>
   build (Some 0x22000000) (Some 0x20000000) = Inr stm32_cfg"
  using build_refuses [of None "Some 0x20000000" stm32_cfg]
    build_refuses [of "Some 0x22000000" None stm32_cfg]
    build_refuses [of None None stm32_cfg]
    build_refuses [of "Some 0x22000000" "Some 0x20000000" stm32_cfg]
  by (simp add: config_guards_def stm32_cfg_def)

lemma mod_mid:
  fixes A X B N :: int
  shows "(A + X mod N + B) mod N = (A + X + B) mod N"
proof -
  have "(A + X mod N + B) mod N = ((A + B) + X mod N) mod N" by (simp add: ac_simps)
  also have "\<dots> = ((A + B) + X) mod N" by (rule mod_add_right_eq)
  also have "\<dots> = (A + X + B) mod N" by (simp add: ac_simps)
  finally show ?thesis .
qed

text \<open>
  C9. The arithmetic of \<open>abb_make\<close> is that of unsigned 32-bit values: for a bit index
  below 8 the handle is the formula taken modulo \<open>2 ^ 32\<close>, with the byte offset
  itself a difference modulo \<open>2 ^ 32\<close>. A cell below the base and a byte offset of
  \<open>2 ^ 27\<close> both give wrapped handles, and the cell \<open>0x26F00000\<close> gets the null
  pointer, which is \<open>INVALID_FLAG\<close>.
\<close>

theorem abb_make_wraps:
  "(b < 8 \<longrightarrow>
      uint (abb_make cfg c b) =
        (uint (SRAM1_BB_BASE cfg) + ((uint c - uint (SRAM1_BASE cfg)) mod 2 ^ 32) * 32
           + uint b * 4) mod 2 ^ 32) \<and>
   abb_make stm32_cfg 0x1FFFFFFF 0 = 0x21FFFFE0 \<and>
   abb_make stm32_cfg 0x28000000 1 = 0x22000004 \<and>
   abb_make stm32_cfg 0x26F00000 0 = INVALID_FLAG"
proof (intro conjI impI)
  assume b: "b < 8"
  let ?A = "uint (SRAM1_BB_BASE cfg)" and ?D = "uint c - uint (SRAM1_BASE cfg)"
  let ?B = "uint b * 4" and ?N = "2 ^ 32 :: int"
  have u: "uint (ucast b :: 32 word) = uint b"
    by (simp add: uint_up_ucast is_up)
  have "uint (abb_make cfg c b) = (?A + ?D * 32 + ?B) mod ?N"
    using b u by (simp add: abb_make_def MAKE_FLAG_word uint_word_ariths mod_simps)
  also have "\<dots> = (?A + (?D * 32) mod ?N + ?B) mod ?N"
    by (simp only: mod_mid)
  also have "\<dots> = (?A + (?D mod ?N * 32) mod ?N + ?B) mod ?N"
    by (simp only: mod_mult_left_eq)
  also have "\<dots> = (?A + ?D mod ?N * 32 + ?B) mod ?N"
    by (simp only: mod_mid)
  finally show "uint (abb_make cfg c b) = (?A + ?D mod ?N * 32 + ?B) mod ?N" .
qed (simp_all add: abb_make_def MAKE_FLAG_word stm32_cfg_def INVALID_FLAG_def)

theorem abb_make_wraps_witness:
  "(0 :: 8 word) < 8 \<and> uint (abb_make stm32_cfg 0x26F00000 0) = 0 \<and>
   (0x22000000 + ((0x26F00000 - 0x20000000) mod 2 ^ 32) * 32 + 0 * 4 :: int) = 2 ^ 32"
  using abb_make_wraps [of 0 stm32_cfg "0x26F00000"]
  by (simp add: stm32_cfg_def INVALID_FLAG_def)

text \<open>
  C10. \<open>abb_tst\<close> only reads: the memory after the call is the memory before it, at
  every byte and every word, and a second test gives the result of the first.
\<close>

theorem abb_tst_read_only:
  "snd (abb_tst mm flag m) = m \<and>
   (\<forall>a. load8 (snd (abb_tst mm flag m)) a = load8 m a) \<and>
   (\<forall>a. load32 mm (snd (abb_tst mm flag m)) a = load32 mm m a) \<and>
   fst (abb_tst mm flag (snd (abb_tst mm flag m))) = fst (abb_tst mm flag m)"
  by (simp add: abb_tst_def)

theorem abb_tst_read_only_witness:
  "snd (abb_tst stm32_map 0x2200008C (\<lambda>a. 8)) = (\<lambda>a. 8) \<and>
   fst (abb_tst stm32_map 0x2200008C (snd (abb_tst stm32_map 0x2200008C (\<lambda>a. 8))))"
  using abb_tst_read_only [of stm32_map "0x2200008C" "\<lambda>a. 8"]
  by (simp add: abb_tst_def load32_def in_alias_def alias_cell_def alias_bit_def
      stm32_map_def)

end
